theory Spec2Isabelle
  imports Main "HOL-Library.Word" "HOL-Library.AList"
begin

section \<open>JavaScript strings\<close>

text \<open>
  A JavaScript string is a sequence of UTF-16 code units; \<open>length\<close>, \<open>substring\<close>,
  \<open>split\<close>, \<open>trim\<close> and \<open>===\<close> all work on code units.
\<close>

type_synonym jschar = "16 word"
type_synonym jsstring = "jschar list"

text \<open>An ASCII literal of the source, as code units.\<close>

definition lit :: "string \<Rightarrow> jsstring" where
  "lit s = map (\<lambda>c. of_nat (of_char c)) s"

definition comma :: jschar where
  "comma = 0x2C"

definition underscore :: jschar where
  "underscore = 0x5F"

text \<open>
  The code units that \<open>String.prototype.trim\<close> strips: the WhiteSpace and
  LineTerminator productions of ECMAScript.
\<close>

definition is_whitespace :: "jschar \<Rightarrow> bool" where
  "is_whitespace c \<longleftrightarrow>
     c \<in> set [0x09, 0x0A, 0x0B, 0x0C, 0x0D, 0x20, 0xA0, 0x1680,
              0x2000, 0x2001, 0x2002, 0x2003, 0x2004, 0x2005, 0x2006, 0x2007,
              0x2008, 0x2009, 0x200A, 0x2028, 0x2029, 0x202F, 0x205F, 0x3000, 0xFEFF]"

text \<open>\<open>s.trim()\<close>\<close>

definition trim :: "jsstring \<Rightarrow> jsstring" where
  "trim s = rev (dropWhile is_whitespace (rev (dropWhile is_whitespace s)))"

text \<open>
  \<open>s.split(sep)\<close> for a one-unit separator: every occurrence of the separator ends a
  piece, so the result has one more piece than there are separators (\<open>"".split(",")\<close>
  is \<open>[""]\<close>).
\<close>

fun split_on :: "'a \<Rightarrow> 'a list \<Rightarrow> 'a list list" where
  "split_on sep [] = [] # []"
| "split_on sep (c # cs) =
     (if c = sep then [] # split_on sep cs
      else (case split_on sep cs of
              [] \<Rightarrow> [c] # []
            | w # ws \<Rightarrow> (c # w) # ws))"

text \<open>\<open>items.join(sep)\<close>\<close>

fun join :: "'a list \<Rightarrow> 'a list list \<Rightarrow> 'a list" where
  "join sep [] = []"
| "join sep [x] = x"
| "join sep (x # y # ys) = x @ sep @ join sep (y # ys)"

section \<open>Plugin state\<close>

text \<open>\<open>settings.store\<close>, declared by \<open>definePluginSettings\<close>.\<close>

record settings_store =
  whitelistedIds :: jsstring
  trackProfileChanges :: bool
  trackStartedTyping :: bool
  trackSentMessage :: bool
  showMessageBody :: bool
  charLimit :: int

text \<open>A line written through \<open>logger\<close> or \<open>console\<close>.\<close>

datatype log_level = Info | Warn | Error

type_synonym log_entry = "log_level \<times> jsstring"

section \<open>Whitelist store\<close>

text \<open>
  The expression every whitelist function starts with:
  \<^verbatim>\<open>ids ? ids.split(",").map(item => item.trim()).filter(item => item !== "") : []\<close>
\<close>

definition parseWhitelist :: "jsstring \<Rightarrow> jsstring list" where
  "parseWhitelist ids =
     (if ids \<noteq> [] then filter (\<lambda>item. item \<noteq> []) (map trim (split_on comma ids))
      else [])"

text \<open>\<open>items.indexOf(id)\<close> followed by \<open>items.splice(index, 1)\<close> when the index is not -1.\<close>

fun splice_first :: "'a \<Rightarrow> 'a list \<Rightarrow> 'a list" where
  "splice_first x [] = []"
| "splice_first x (y # ys) = (if y = x then ys else y # splice_first x ys)"

text \<open>
  The whitelist functions read and write \<open>settings.store.whitelistedIds\<close> and write to
  the logger; the model passes the store and returns it with the lines logged.
\<close>

definition addToWhitelist :: "settings_store \<Rightarrow> jsstring \<Rightarrow> settings_store \<times> log_entry list" where
  "addToWhitelist store ident =
     (let items = parseWhitelist (whitelistedIds store) in
      if ident \<notin> set items then
        (store\<lparr>whitelistedIds := join [comma] (items @ [ident])\<rparr>,
         [(Info, lit ''Added ID '' @ ident @ lit '' to whitelist.'')])
      else
        (store, [(Warn, lit ''ID '' @ ident @ lit '' is already in the whitelist.'')]))"

definition removeFromWhitelist :: "settings_store \<Rightarrow> jsstring \<Rightarrow> settings_store \<times> log_entry list" where
  "removeFromWhitelist store ident =
     (let items = parseWhitelist (whitelistedIds store) in
      if ident \<in> set items then
        (store\<lparr>whitelistedIds := join [comma] (splice_first ident items)\<rparr>,
         [(Info, lit ''Removed ID '' @ ident @ lit '' from whitelist.'')])
      else
        (store, [(Warn, lit ''ID '' @ ident @ lit '' not found in the whitelist.'')]))"

definition isInWhitelist :: "settings_store \<Rightarrow> jsstring \<Rightarrow> bool" where
  "isInWhitelist store ident \<longleftrightarrow> ident \<in> set (parseWhitelist (whitelistedIds store))"

section \<open>Payload normalizer\<close>

text \<open>
  The values a host payload is made of. An object is its own enumerable properties in
  the order \<open>Object.keys\<close> lists them, each key once. Numbers of the payloads (flags,
  colours, counts, type codes) are integers.
\<close>

datatype jsval =
    JUndefined
  | JNull
  | JBool bool
  | JNum int
  | JStr jsstring
  | JArr "jsval list"
  | JObj "(jsstring \<times> jsval) list"

text \<open>
  The character class \<open>[a-z]\<close> under the flag \<open>i\<close> (without \<open>u\<close>): the ASCII
  letters of both cases, and \<open>toUpperCase\<close> on such a letter.
\<close>

definition is_ascii_letter :: "jschar \<Rightarrow> bool" where
  "is_ascii_letter c \<longleftrightarrow> (0x41 \<le> c \<and> c \<le> 0x5A) \<or> (0x61 \<le> c \<and> c \<le> 0x7A)"

definition toUpperCase :: "jschar \<Rightarrow> jschar" where
  "toUpperCase c = (if 0x61 \<le> c \<and> c \<le> 0x7A then c - 0x20 else c)"

text \<open>
  \<^verbatim>\<open>key.replace(/_([a-z])/gi, (_, char) => char.toUpperCase())\<close>: matches are found
  from left to right and do not overlap.
\<close>

fun camelCaseKey :: "jsstring \<Rightarrow> jsstring" where
  "camelCaseKey [] = []"
| "camelCaseKey [c] = [c]"
| "camelCaseKey (c # d # cs) =
     (if c = underscore \<and> is_ascii_letter d then toUpperCase d # camelCaseKey cs
      else c # camelCaseKey (d # cs))"

text \<open>
  \<open>{ ...newObj, [camelCaseKey]: value }\<close> is \<open>AList.update\<close>: a key that is already
  there keeps its place and takes the new value, a new key goes to the end.
  \<open>convertEntries\<close> is the \<open>reduce\<close> over \<open>Object.keys(obj)\<close>, \<open>convertElements\<close>
  the \<open>map\<close> over an array.
\<close>

fun convertSnakeCaseToCamelCase :: "jsval \<Rightarrow> jsval"
  and convertElements :: "jsval list \<Rightarrow> jsval list"
  and convertEntries :: "(jsstring \<times> jsval) list \<Rightarrow> (jsstring \<times> jsval) list \<Rightarrow> (jsstring \<times> jsval) list"
where
  "convertSnakeCaseToCamelCase (JArr xs) = JArr (convertElements xs)"
| "convertSnakeCaseToCamelCase (JObj kvs) = JObj (convertEntries [] kvs)"
| "convertSnakeCaseToCamelCase JUndefined = JUndefined"
| "convertSnakeCaseToCamelCase JNull = JNull"
| "convertSnakeCaseToCamelCase (JBool b) = JBool b"
| "convertSnakeCaseToCamelCase (JNum n) = JNum n"
| "convertSnakeCaseToCamelCase (JStr s) = JStr s"
| "convertElements [] = []"
| "convertElements (x # xs) = convertSnakeCaseToCamelCase x # convertElements xs"
| "convertEntries newObj [] = newObj"
| "convertEntries newObj ((key, v) # kvs) =
     convertEntries (AList.update (camelCaseKey key) (convertSnakeCaseToCamelCase v) newObj) kvs"

section \<open>Host stores and notifications\<close>

text \<open>
  A message as the host hands it over (\<open>Message\<close> of \<open>discord-types\<close> and the
  \<open>message\<close> of a payload). A field the source reads through \<open>?.\<close> or tests for
  presence is optional: \<open>author_id\<close> is \<open>message.author?.id\<close>.
\<close>

record attachment =
  filename :: jsstring

record message =
  msg_id :: "jsstring option"
  channel_id :: "jsstring option"
  author_id :: "jsstring option"
  msg_content :: jsstring
  attachments :: "attachment list option"
  msg_type :: int

text \<open>
  A user of \<open>UserStore\<close>: \<open>avatarURL\<close> is what
  \<open>getAvatarURL(undefined, undefined, false)\<close> returns.
\<close>

record host_user =
  user_id :: jsstring
  username :: jsstring
  avatarURL :: "jsstring option"

text \<open>
  The result of a dynamic \<open>import(...)\<close> of \<open>LoggedMessageManager\<close>: it throws (with
  the error's text), or gives a module whose \<open>loggedMessages\<close> export may be missing.
\<close>

datatype import_result =
    ImportFails jsstring
  | Module "(jsstring \<rightharpoonup> message) option"

text \<open>What the handlers read from the host.\<close>

record host =
  currentChannelId :: "jsstring option"
  getMessage :: "jsstring \<Rightarrow> jsstring \<Rightarrow> message option"
  getUser :: "jsstring \<rightharpoonup> host_user"
  getCurrentUser :: "host_user option"
  importEquicord :: import_result
  importUserplugins :: import_result
  stringOf :: "jsval \<Rightarrow> jsstring"

text \<open>
  \<open>currentChannelId\<close> is \<open>getCurrentChannel()?.id\<close>, \<open>getMessage\<close> is
  \<open>MessageStore.getMessage(channelId, id)\<close>, \<open>stringOf\<close> is the conversion a template
  literal applies to a value that is not a string.
\<close>

text \<open>The \<open>onClick\<close> callbacks, by what they do when invoked.\<close>

datatype click_action =
    SwitchToMsg "jsstring option" "jsstring option" "jsstring option"
  | SelectChannel jsstring "jsstring option" "jsstring option"
  | OpenUserProfile jsstring

record notification =
  title :: jsstring
  body :: jsstring
  onClick :: click_action
  icon :: jsstring

datatype js_error = TypeError

text \<open>
  The mutable state of the plugin: the settings store, the two module-level caches,
  and, as they accumulate, the lines logged, the notifications shown and the module
  specifiers passed to \<open>import(...)\<close>. The caches are ordinary objects used as
  dictionaries: \<open>oldUsers\<close> and \<open>loggedMessages\<close> hold their own properties.
\<close>

record plugin_state =
  settings :: settings_store
  oldUsers :: "jsstring \<rightharpoonup> jsval"
  loggedMessages :: "jsstring \<rightharpoonup> message"
  logs :: "log_entry list"
  notifications :: "notification list"
  importsTried :: "jsstring list"

text \<open>
  Reading \<open>obj[key]\<close> on such an object gives the own property, and for a key without
  one the property \<open>Object.prototype\<close> has under that name, if any: a function, or
  for \<open>__proto__\<close> the prototype itself. Such a value is truthy and has none of the
  fields of a message or a snapshot.
\<close>

definition objectPrototypeKeys :: "jsstring list" where
  "objectPrototypeKeys =
     [lit ''constructor'', lit ''__defineGetter__'', lit ''__defineSetter__'',
      lit ''hasOwnProperty'', lit ''__lookupGetter__'', lit ''__lookupSetter__'',
      lit ''isPrototypeOf'', lit ''propertyIsEnumerable'', lit ''toString'', lit ''valueOf'',
      lit ''__proto__'', lit ''toLocaleString'']"

datatype 'a property = Own 'a | Inherited | Undefined

definition readProperty :: "(jsstring \<rightharpoonup> 'a) \<Rightarrow> jsstring \<Rightarrow> 'a property" where
  "readProperty obj key =
     (case obj key of
        Some v \<Rightarrow> Own v
      | None \<Rightarrow> if key \<in> set objectPrototypeKeys then Inherited else Undefined)"

definition TRANSPARENT_ICON :: jsstring where
  "TRANSPARENT_ICON = lit ''data:image/png;base64,iVBORw0KGgoAAAANSUhEUgAAAAEAAAABCAYAAAAfFcSJAAAADUlEQVQIW2NkYGD4DwABBAEAQ6yD0gAAAABJRU5ErkJggg==''"

text \<open>A string or \<open>undefined\<close> in a condition: \<open>undefined\<close> and \<open>""\<close> are falsy.\<close>

fun truthy_str :: "jsstring option \<Rightarrow> bool" where
  "truthy_str None = False"
| "truthy_str (Some s) = (s \<noteq> [])"

definition createNotification ::
  "plugin_state \<Rightarrow> jsstring \<Rightarrow> jsstring \<Rightarrow> click_action \<Rightarrow> jsstring option \<Rightarrow> plugin_state" where
  "createNotification st t b cb ic =
     st\<lparr>notifications := notifications st @
          [\<lparr>title = t, body = b, onClick = cb,
            icon = (case ic of
                      Some url \<Rightarrow> if url \<noteq> [] then url else TRANSPARENT_ICON
                    | None \<Rightarrow> TRANSPARENT_ICON)\<rparr>]\<rparr>"

section \<open>Notification gate\<close>

definition shouldNotify :: "host \<Rightarrow> settings_store \<Rightarrow> jsstring \<Rightarrow> jsstring option \<Rightarrow> bool" where
  "shouldNotify h store userId channelId \<longleftrightarrow>
     isInWhitelist store userId \<and> currentChannelId h \<noteq> channelId"

section \<open>Message body\<close>

definition placeholder :: jsstring where
  "placeholder = lit ''Click to jump to the message''"

text \<open>\<open>attachments?.[0]?.filename\<close>\<close>

fun firstFilename :: "attachment list option \<Rightarrow> jsstring option" where
  "firstFilename None = None"
| "firstFilename (Some []) = None"
| "firstFilename (Some (a # as)) = Some (filename a)"

text \<open>\<open>content || attachments?.[0]?.filename || "Click to jump to the message"\<close>\<close>

definition baseContent :: "message \<Rightarrow> jsstring" where
  "baseContent m =
     (if msg_content m \<noteq> [] then msg_content m
      else (case firstFilename (attachments m) of
              Some name \<Rightarrow> if name \<noteq> [] then name else placeholder
            | None \<Rightarrow> placeholder))"

definition getMessageBody :: "settings_store \<Rightarrow> message \<Rightarrow> jsstring" where
  "getMessageBody store m =
     (if \<not> showMessageBody store then placeholder
      else if charLimit store > 0 \<and> int (length (baseContent m)) > charLimit store
        then take (nat (charLimit store)) (baseContent m) @ lit ''...''
        else baseContent m)"

section \<open>Context menu patch\<close>

text \<open>
  A child of the menu: a hole (\<open>null\<close> or \<open>undefined\<close>), an element of the host with
  the \<open>id\<close> of its props when it has one, or one of the two elements the patch pushes.
  The action of the pushed item follows or unfollows the user, by the whitelist at the
  time of the click.
\<close>

datatype menu_child =
    Hole
  | HostElement "jsstring option"
  | MenuSeparator
  | MenuItem jsstring jsstring jsstring

fun child_id :: "menu_child \<Rightarrow> jsstring option" where
  "child_id Hole = None"
| "child_id (HostElement i) = i"
| "child_id MenuSeparator = None"
| "child_id (MenuItem i label target) = Some i"

text \<open>
  \<open>props\<close> may be missing; \<open>props_user\<close> is \<open>props.user.id\<close>, absent when \<open>props\<close>
  has no \<open>user\<close>, in which case reading \<open>props.user.id\<close> throws.
\<close>

record menu_props =
  props_user :: "jsstring option"

definition contextMenuPatch ::
  "host \<Rightarrow> settings_store \<Rightarrow> menu_child list \<Rightarrow> menu_props option \<Rightarrow> js_error + menu_child list" where
  "contextMenuPatch h store children props =
     (case props of
        None \<Rightarrow> Inr children
      | Some p \<Rightarrow>
          (case props_user p of
             None \<Rightarrow> Inl TypeError
           | Some target \<Rightarrow>
               (case getCurrentUser h of
                  None \<Rightarrow> Inl TypeError
                | Some me \<Rightarrow>
                    if target = user_id me then Inr children
                    else if Some (lit ''follower-v1'') \<notin> set (map child_id children) then
                      Inr (children @
                           [MenuSeparator,
                            MenuItem (lit ''follower-v1'')
                              (if isInWhitelist store target then lit ''Stop Following User''
                               else lit ''Follow User'')
                              target])
                    else Inr children)))"

section \<open>Event handlers\<close>

text \<open>
  The payload of the message-created and message-updated events. The payload types are
  declared in \<open>./types\<close>; the records hold the fields the handlers read.
\<close>

record message_payload =
  payload_message :: "message option"
  payload_guildId :: "jsstring option"
  payload_channelId :: "jsstring option"

definition MESSAGE_CREATE :: "host \<Rightarrow> plugin_state \<Rightarrow> message_payload \<Rightarrow> js_error + plugin_state" where
  "MESSAGE_CREATE h st payload =
     (case payload_message payload of
        None \<Rightarrow> Inr st
      | Some m \<Rightarrow>
          (case author_id m of
             None \<Rightarrow> Inr st
           | Some authorId \<Rightarrow>
               if authorId = [] \<or> \<not> truthy_str (payload_channelId payload)
                  \<or> \<not> trackSentMessage (settings st) then Inr st
               else if \<not> shouldNotify h (settings st) authorId (payload_channelId payload) then Inr st
               else
                 (case getUser h authorId of
                    None \<Rightarrow> Inl TypeError
                  | Some author \<Rightarrow>
                      if msg_type m = 7 then
                        Inr (createNotification st
                               (username author @ lit '' Joined a server'')
                               (lit ''Click to jump to the message.'')
                               (SwitchToMsg (payload_guildId payload) (payload_channelId payload) (msg_id m))
                               (avatarURL author))
                      else
                        Inr (createNotification st
                               (username author @ lit '' Sent a message'')
                               (getMessageBody (settings st) m)
                               (SwitchToMsg (payload_guildId payload) (payload_channelId payload) (msg_id m))
                               (avatarURL author)))))"

definition MESSAGE_UPDATE :: "host \<Rightarrow> plugin_state \<Rightarrow> message_payload \<Rightarrow> js_error + plugin_state" where
  "MESSAGE_UPDATE h st payload =
     (case payload_message payload of
        None \<Rightarrow> Inr st
      | Some m \<Rightarrow>
          (case author_id m of
             None \<Rightarrow> Inr st
           | Some authorId \<Rightarrow>
               if authorId = [] \<or> \<not> truthy_str (payload_channelId payload) then Inr st
               else if \<not> shouldNotify h (settings st) authorId (payload_channelId payload) then Inr st
               else
                 (case getUser h authorId of
                    None \<Rightarrow> Inl TypeError
                  | Some author \<Rightarrow>
                      Inr (createNotification st
                             (username author @ lit '' Edited a message'')
                             (getMessageBody (settings st) m)
                             (SwitchToMsg (payload_guildId payload) (payload_channelId payload) (msg_id m))
                             (avatarURL author)))))"

subsection \<open>Message deleted\<close>

definition equicordPath :: jsstring where
  "equicordPath = lit ''equicordplugins/messageLoggerEnhanced/LoggedMessageManager''"

definition userpluginsPath :: jsstring where
  "userpluginsPath = lit ''userplugins/vc-message-logger-enhanced/LoggedMessageManager''"

text \<open>
  \<open>importLoggedMessages\<close>: the value it resolves to (\<open>None\<close> for \<open>null\<close> and for a
  module without the export) and the state after its imports and its \<open>console.error\<close>.
\<close>

definition importLoggedMessages ::
  "host \<Rightarrow> plugin_state \<Rightarrow> (jsstring \<rightharpoonup> message) option \<times> plugin_state" where
  "importLoggedMessages h st =
     (case importEquicord h of
        Module exported \<Rightarrow> (exported, st\<lparr>importsTried := importsTried st @ [equicordPath]\<rparr>)
      | ImportFails e1 \<Rightarrow>
          (case importUserplugins h of
             Module exported \<Rightarrow>
               (exported, st\<lparr>importsTried := importsTried st @ [equicordPath, userpluginsPath]\<rparr>)
           | ImportFails e2 \<Rightarrow>
               (None,
                st\<lparr>importsTried := importsTried st @ [equicordPath, userpluginsPath],
                   logs := logs st @ [(Error, lit ''Failed to load MessageLoggerEnhanced: '' @ e2)]\<rparr>)))"

text \<open>\<open>loggedMessages = (await importLoggedMessages()) || {}\<close>\<close>

definition reloadLoggedMessages :: "host \<Rightarrow> plugin_state \<Rightarrow> plugin_state" where
  "reloadLoggedMessages h st =
     (let (imported, st1) = importLoggedMessages h st
      in st1\<lparr>loggedMessages := (case imported of Some cache \<Rightarrow> cache | None \<Rightarrow> Map.empty)\<rparr>)"

text \<open>\<open>MessageStore.getMessage(channelId, id) || loggedMessages[id]\<close>\<close>

definition lookupMessage :: "host \<Rightarrow> plugin_state \<Rightarrow> jsstring \<Rightarrow> jsstring \<Rightarrow> message property" where
  "lookupMessage h st channelId ident =
     (case getMessage h channelId ident of
        Some m \<Rightarrow> Own m
      | None \<Rightarrow> readProperty (loggedMessages st) ident)"

definition notFoundDiagnostic :: jsstring where
  "notFoundDiagnostic = lit ''Received a MESSAGE_DELETE event but the message was not found in the MessageStore. Consider enabling \"Cache Messages From Servers\" setting in MessageLoggerEnhanced.''"

definition quote :: jschar where
  "quote = 0x22"

text \<open>The body of the message-deleted notification, a template literal in the source.\<close>

definition deletedBody :: "message \<Rightarrow> jsstring" where
  "deletedBody m =
     [quote] @
     (if length (msg_content m) > 100 then take 100 (msg_content m) @ lit ''...''
      else msg_content m) @
     [quote]"

text \<open>The handler from the point where the message is resolved.\<close>

definition notifyDeleted :: "host \<Rightarrow> plugin_state \<Rightarrow> jsstring \<Rightarrow> message \<Rightarrow> js_error + plugin_state" where
  "notifyDeleted h st guildId m =
     (case author_id m of
        None \<Rightarrow> Inr st
      | Some authorId \<Rightarrow>
          if \<not> shouldNotify h (settings st) authorId (channel_id m) then Inr st
          else
            (case getUser h authorId of
               None \<Rightarrow> Inl TypeError
             | Some author \<Rightarrow>
                 Inr (createNotification st
                        (username author @ lit '' Deleted a message!'')
                        (deletedBody m)
                        (SelectChannel guildId (channel_id m) (msg_id m))
                        (avatarURL author))))"

record delete_payload =
  delete_id :: "jsstring option"
  delete_channelId :: "jsstring option"
  delete_guildId :: "jsstring option"

text \<open>
  The handler awaits \<open>importLoggedMessages\<close>; the model runs it to completion, with
  the host stores as they are when the event arrives. When the lookup gives an
  inherited property, \<open>message\<close> is truthy, \<open>message.author?.id\<close> is \<open>undefined\<close>,
  which is no entry of the whitelist, and the handler returns at the gate.
\<close>

definition MESSAGE_DELETE :: "host \<Rightarrow> plugin_state \<Rightarrow> delete_payload \<Rightarrow> js_error + plugin_state" where
  "MESSAGE_DELETE h st payload =
     (case (delete_id payload, delete_channelId payload, delete_guildId payload) of
        (Some ident, Some channelId, Some guildId) \<Rightarrow>
          if ident = [] \<or> channelId = [] \<or> guildId = [] then Inr st
          else
            (case lookupMessage h st channelId ident of
               Own m \<Rightarrow> notifyDeleted h st guildId m
             | Inherited \<Rightarrow> Inr st
             | Undefined \<Rightarrow>
                 (let st2 = reloadLoggedMessages h st
                  in case lookupMessage h st2 channelId ident of
                       Own m \<Rightarrow> notifyDeleted h st2 guildId m
                     | Inherited \<Rightarrow> Inr st2
                     | Undefined \<Rightarrow> Inr (st2\<lparr>logs := logs st2 @ [(Error, notFoundDiagnostic)]\<rparr>)))
      | _ \<Rightarrow> Inr st)"

subsection \<open>Profile fetched\<close>












section \<open>Notions of the specification\<close>

text \<open>
  An id that the comma-separated form can hold: not empty, without a comma, and
  without whitespace at either end.
\<close>

definition wellFormedId :: "jsstring \<Rightarrow> bool" where
  "wellFormedId ident \<longleftrightarrow> ident \<noteq> [] \<and> comma \<notin> set ident \<and> trim ident = ident"

text \<open>
  A snake_case key is words joined by underscores; its camelCase form keeps the first
  word and capitalises the first letter of each later word.
\<close>

definition snake_case :: "jsstring list \<Rightarrow> jsstring" where
  "snake_case ws = join [underscore] ws"

fun capitalise :: "jsstring \<Rightarrow> jsstring" where
  "capitalise [] = []"
| "capitalise (c # cs) = toUpperCase c # cs"

fun camelCase :: "jsstring list \<Rightarrow> jsstring" where
  "camelCase [] = []"
| "camelCase (w # ws) = w @ concat (map capitalise ws)"

text \<open>A later word of a snake_case key: no underscore in it, and a letter first.\<close>

definition laterWord :: "jsstring \<Rightarrow> bool" where
  "laterWord w \<longleftrightarrow> w \<noteq> [] \<and> is_ascii_letter (hd w) \<and> underscore \<notin> set w"

section \<open>Example inputs\<close>

text \<open>The settings as \<open>definePluginSettings\<close> declares their defaults.\<close>

definition defaultStore :: settings_store where
  "defaultStore = \<lparr>whitelistedIds = [], trackProfileChanges = False, trackStartedTyping = True,
     trackSentMessage = True, showMessageBody = True, charLimit = 118\<rparr>"

definition following42 :: settings_store where
  "following42 = defaultStore\<lparr>whitelistedIds := lit ''7, 42''\<rparr>"

definition follower :: host_user where
  "follower = \<lparr>user_id = lit ''42'', username = lit ''ivy'',
     avatarURL = Some (lit ''https://cdn.example/42.png'')\<rparr>"

definition operator :: host_user where
  "operator = \<lparr>user_id = lit ''1'', username = lit ''me'', avatarURL = None\<rparr>"

definition longMessage :: message where
  "longMessage = \<lparr>msg_id = Some (lit ''9''), channel_id = Some (lit ''200''),
     author_id = Some (lit ''42''), msg_content = lit ''hello world this is long'',
     attachments = None, msg_type = 0\<rparr>"

text \<open>
  A host where channel 100 is open, the live message store holds message 9 of channel
  200, and the logging plugin is installed under \<open>userplugins\<close> with an empty cache.
\<close>

definition exampleHost :: host where
  "exampleHost = \<lparr>currentChannelId = Some (lit ''100''),
     getMessage = (\<lambda>channelId ident.
       if channelId = lit ''200'' \<and> ident = lit ''9'' then Some longMessage else None),
     getUser = [lit ''42'' \<mapsto> follower],
     getCurrentUser = Some operator,
     importEquicord = ImportFails (lit ''Error: Cannot find module''),
     importUserplugins = Module (Some Map.empty),
     stringOf = (\<lambda>v. lit ''undefined'')\<rparr>"

definition clippingState :: plugin_state where
  "clippingState = \<lparr>settings = following42\<lparr>charLimit := 10\<rparr>, oldUsers = Map.empty,
     loggedMessages = Map.empty, logs = [], notifications = [], importsTried = []\<rparr>"

definition longMessagePayload :: message_payload where
  "longMessagePayload = \<lparr>payload_message = Some longMessage, payload_guildId = Some (lit ''300''),
     payload_channelId = Some (lit ''200'')\<rparr>"

definition profileExample :: jsval where
  "profileExample = JObj [(lit ''global_name'', JStr (lit ''x'')),
     (lit ''nested_obj'', JObj [(lit ''accent_color'', JNum 1)])]"

definition screenshotMessage :: message where
  "screenshotMessage = \<lparr>msg_id = Some (lit ''10''), channel_id = Some (lit ''200''),
     author_id = Some (lit ''42''), msg_content = [],
     attachments = Some [\<lparr>filename = lit ''screenshot-2024.png''\<rparr>], msg_type = 0\<rparr>"

definition deleteKnown :: delete_payload where
  "deleteKnown = \<lparr>delete_id = Some (lit ''9''), delete_channelId = Some (lit ''200''),
     delete_guildId = Some (lit ''300'')\<rparr>"

definition deleteUnknown :: delete_payload where
  "deleteUnknown = \<lparr>delete_id = Some (lit ''77''), delete_channelId = Some (lit ''200''),
     delete_guildId = Some (lit ''300'')\<rparr>"





text \<open>A message of 101 code units, all \<open>a\<close>.\<close>

definition repetitiveMessage :: message where
  "repetitiveMessage = longMessage\<lparr>msg_content := replicate 101 0x61\<rparr>"



text \<open>A message that only the logging plugin's cache holds, and a host with that cache.\<close>

definition loggedOnlyMessage :: message where
  "loggedOnlyMessage = \<lparr>msg_id = Some (lit ''77''), channel_id = Some (lit ''200''),
     author_id = Some (lit ''42''), msg_content = lit ''gone'', attachments = None, msg_type = 0\<rparr>"

definition loggingHost :: host where
  "loggingHost = exampleHost\<lparr>importUserplugins := Module (Some [lit ''77'' \<mapsto> loggedOnlyMessage])\<rparr>"

definition deleteConstructor :: delete_payload where
  "deleteConstructor = \<lparr>delete_id = Some (lit ''constructor''), delete_channelId = Some (lit ''200''),
     delete_guildId = Some (lit ''300'')\<rparr>"

definition hiddenBodyState :: plugin_state where
  "hiddenBodyState = clippingState\<lparr>settings := (settings clippingState)\<lparr>showMessageBody := False\<rparr>\<rparr>"

definition unlimitedState :: plugin_state where
  "unlimitedState = clippingState\<lparr>settings := (settings clippingState)\<lparr>charLimit := 0\<rparr>\<rparr>"

section \<open>Splitting, joining and trimming\<close>

lemmas example_defs = lit_def comma_def trim_def is_whitespace_def parseWhitelist_def
  isInWhitelist_def defaultStore_def following42_def exampleHost_def

lemma split_on_no_sep: "sep \<notin> set x \<Longrightarrow> split_on sep x = [x]"
  by (induction x) auto

lemma split_on_append: "sep \<notin> set x \<Longrightarrow> split_on sep (x @ sep # rest) = x # split_on sep rest"
  by (induction x) auto

lemma split_on_join:
  "xs \<noteq> [] \<Longrightarrow> \<forall>x\<in>set xs. sep \<notin> set x \<Longrightarrow> split_on sep (join [sep] xs) = xs"
proof (induction xs)
  case Nil
  then show ?case by simp
next
  case (Cons x xs)
  show ?case
  proof (cases xs)
    case Nil
    with Cons.prems show ?thesis by (simp add: split_on_no_sep)
  next
    case (Cons y ys)
    with Cons.prems Cons.IH show ?thesis by (simp add: split_on_append)
  qed
qed

lemma split_on_pieces: "w \<in> set (split_on sep s) \<Longrightarrow> sep \<notin> set w"
  by (induction s arbitrary: w) (auto split: if_splits list.splits)

lemma set_trim: "set (trim s) \<subseteq> set s"
  unfolding trim_def by (metis set_dropWhileD set_rev subsetI)

lemma trim_ends:
  "trim s = [] \<or> (\<not> is_whitespace (hd (trim s)) \<and> \<not> is_whitespace (last (trim s)))"
  by (metis (no_types, lifting) dropWhile_eq_self_iff dropWhile_last
    hd_dropWhile last_rev list.set_sel(1) rev.simps(1) rev_rev_ident set_rev trim_def)

lemma trim_fixed:
  "x = [] \<or> (\<not> is_whitespace (hd x) \<and> \<not> is_whitespace (last x)) \<Longrightarrow> trim x = x"
  by (metis dropWhile_eq_self_iff hd_rev rev.simps(1) rev_rev_ident trim_def)

lemma trim_idem: "trim (trim s) = trim s"
  using trim_ends [of s] by (rule trim_fixed)

section \<open>The whitelist store\<close>

lemma parse_entries_wellFormed:
  assumes "x \<in> set (parseWhitelist ids)"
  shows "wellFormedId x"
proof -
  from assms obtain w where w: "w \<in> set (split_on comma ids)" and x: "x = trim w" and ne: "x \<noteq> []"
    by (auto simp: parseWhitelist_def split: if_splits)
  have "comma \<notin> set w" using w by (rule split_on_pieces)
  then have "comma \<notin> set x" using set_trim [of w] x by auto
  then show ?thesis using ne x by (simp add: wellFormedId_def trim_idem)
qed

lemma join_nonempty: "xs \<noteq> [] \<Longrightarrow> \<forall>x\<in>set xs. x \<noteq> [] \<Longrightarrow> join sep xs \<noteq> []"
  by (induction sep xs rule: join.induct) auto

lemma parse_join:
  assumes "\<forall>x\<in>set xs. wellFormedId x"
  shows "parseWhitelist (join [comma] xs) = xs"
proof (cases xs)
  case Nil
  then show ?thesis by (simp add: parseWhitelist_def)
next
  case (Cons y ys)
  then have ne: "xs \<noteq> []" by simp
  have "join [comma] xs \<noteq> []"
    using ne assms by (intro join_nonempty) (auto simp: wellFormedId_def)
  moreover have "split_on comma (join [comma] xs) = xs"
    using ne assms by (intro split_on_join) (auto simp: wellFormedId_def)
  moreover have "map trim xs = xs"
    using assms by (simp add: map_idI wellFormedId_def)
  moreover have "filter (\<lambda>item. item \<noteq> []) xs = xs"
    using assms by (simp add: wellFormedId_def)
  ultimately show ?thesis by (simp add: parseWhitelist_def)
qed

lemma set_splice_first: "set (splice_first x xs) \<subseteq> set xs"
  by (induction xs) auto

lemma mem_count_list: "x \<in> set xs \<longleftrightarrow> 1 \<le> count_list xs x"
  using count_list_0_iff [of xs x] by arith

lemma splice_first_mem: "x \<in> set (splice_first x xs) \<longleftrightarrow> 2 \<le> count_list xs x"
  by (induction xs) (auto simp: mem_count_list)


lemma parse_after_add:
  assumes "wellFormedId ident"
  shows "parseWhitelist (whitelistedIds (fst (addToWhitelist store ident))) =
     (if ident \<in> set (parseWhitelist (whitelistedIds store)) then parseWhitelist (whitelistedIds store)
      else parseWhitelist (whitelistedIds store) @ [ident])"
  using assms by (simp add: addToWhitelist_def Let_def parse_join parse_entries_wellFormed)

lemma parse_after_remove:
  "parseWhitelist (whitelistedIds (fst (removeFromWhitelist store ident))) =
     splice_first ident (parseWhitelist (whitelistedIds store))"
proof (cases "ident \<in> set (parseWhitelist (whitelistedIds store))")
  case True
  have "\<forall>x\<in>set (splice_first ident (parseWhitelist (whitelistedIds store))). wellFormedId x"
    using set_splice_first [of ident "parseWhitelist (whitelistedIds store)"]
    by (auto intro: parse_entries_wellFormed)
  then show ?thesis using True by (simp add: removeFromWhitelist_def Let_def parse_join)
next
  case False
  have "splice_first ident xs = xs" if "ident \<notin> set xs" for xs :: "jsstring list"
    using that by (induction xs) auto
  then show ?thesis using False by (simp add: removeFromWhitelist_def Let_def)
qed

text \<open>
  C2, as amended. When the id is already among the parsed entries, \<open>addToWhitelist\<close>
  leaves the store as it is and logs one warning. For an id that is not empty, has no
  comma and no whitespace at either end, \<open>isInWhitelist\<close> holds after
  \<open>addToWhitelist\<close>, whatever the persisted string was. The function returns a store
  on every input: there is no error result.
\<close>

theorem add_then_contains:
  "(isInWhitelist store ident \<longrightarrow>
      addToWhitelist store ident =
        (store, [(Warn, lit ''ID '' @ ident @ lit '' is already in the whitelist.'')]))
   \<and> (wellFormedId ident \<longrightarrow> isInWhitelist (fst (addToWhitelist store ident)) ident)"
  by (simp add: isInWhitelist_def parse_after_add) (simp add: addToWhitelist_def)

theorem add_then_contains_witness:
  "wellFormedId (lit ''42'') \<and> isInWhitelist (defaultStore\<lparr>whitelistedIds := lit ''7, 42''\<rparr>) (lit ''42'')
   \<and> isInWhitelist (fst (addToWhitelist (defaultStore\<lparr>whitelistedIds := lit ''7, 42''\<rparr>) (lit ''42''))) (lit ''42'')
   \<and> fst (addToWhitelist (defaultStore\<lparr>whitelistedIds := lit ''7, 42''\<rparr>) (lit ''42'')) = defaultStore\<lparr>whitelistedIds := lit ''7, 42''\<rparr>
   \<and> \<not> isInWhitelist defaultStore (lit ''42'')
   \<and> isInWhitelist (fst (addToWhitelist defaultStore (lit ''42''))) (lit ''42'')"
  using add_then_contains [of "defaultStore\<lparr>whitelistedIds := lit ''7, 42''\<rparr>" "lit ''42''"]
    add_then_contains [of defaultStore "lit ''42''"]
  by (simp add: wellFormedId_def isInWhitelist_def parseWhitelist_def defaultStore_def lit_def
      comma_def trim_def is_whitespace_def)

text \<open>
  For an arbitrary id the property fails: an id with a comma is stored as two entries,
  an id with a leading space is stored trimmed, and the empty id is dropped.
\<close>

theorem add_then_contains_counterexample:
  "\<not> isInWhitelist (fst (addToWhitelist defaultStore (lit ''4,2''))) (lit ''4,2'')
   \<and> \<not> isInWhitelist (fst (addToWhitelist defaultStore (lit '' 42''))) (lit '' 42'')
   \<and> \<not> isInWhitelist (fst (addToWhitelist defaultStore [])) []"
  by (simp add: addToWhitelist_def isInWhitelist_def parseWhitelist_def defaultStore_def lit_def
      comma_def trim_def is_whitespace_def)

text \<open>
  C3, as amended. After \<open>removeFromWhitelist\<close>, \<open>isInWhitelist\<close> is false for the
  removed id exactly when the id occurred at most once among the parsed entries: one
  occurrence is spliced out.
\<close>

theorem remove_then_contains:
  "\<not> isInWhitelist (fst (removeFromWhitelist store ident)) ident \<longleftrightarrow>
     count_list (parseWhitelist (whitelistedIds store)) ident \<le> 1"
  by (simp add: isInWhitelist_def parse_after_remove splice_first_mem not_le) arith

theorem remove_then_contains_witness:
  "count_list (parseWhitelist (whitelistedIds (defaultStore\<lparr>whitelistedIds := lit ''7, 42''\<rparr>))) (lit ''42'') \<le> 1
   \<and> isInWhitelist (defaultStore\<lparr>whitelistedIds := lit ''7, 42''\<rparr>) (lit ''42'')
   \<and> \<not> isInWhitelist (fst (removeFromWhitelist (defaultStore\<lparr>whitelistedIds := lit ''7, 42''\<rparr>) (lit ''42''))) (lit ''42'')"
  using remove_then_contains [of "defaultStore\<lparr>whitelistedIds := lit ''7, 42''\<rparr>" "lit ''42''"]
  by (simp add: isInWhitelist_def parseWhitelist_def defaultStore_def lit_def
      comma_def trim_def is_whitespace_def)

text \<open>With the id twice in the persisted string, \<open>isInWhitelist\<close> still holds after the removal.\<close>

theorem remove_then_contains_counterexample:
  "isInWhitelist (fst (removeFromWhitelist (defaultStore\<lparr>whitelistedIds := lit ''42,42''\<rparr>) (lit ''42''))) (lit ''42'')"
  by (simp add: removeFromWhitelist_def isInWhitelist_def parseWhitelist_def defaultStore_def lit_def
      comma_def trim_def is_whitespace_def)




section \<open>The notification gate\<close>

text \<open>
  C1. \<open>shouldNotify\<close> holds exactly when the user id is among the parsed whitelist
  entries and the channel id differs from the id of the channel in focus; it is false
  for a user who is not whitelisted, and an absent channel id differs from the id of
  any channel in focus.
\<close>

theorem shouldNotify_iff:
  "(shouldNotify h store u c \<longleftrightarrow>
      u \<in> set (parseWhitelist (whitelistedIds store)) \<and> c \<noteq> currentChannelId h)
   \<and> (\<not> isInWhitelist store u \<longrightarrow> \<not> shouldNotify h store u c)
   \<and> (isInWhitelist store u \<and> currentChannelId h = Some k \<longrightarrow> shouldNotify h store u None)"
  by (auto simp: shouldNotify_def isInWhitelist_def)

theorem shouldNotify_iff_witness:
  "isInWhitelist following42 (lit ''42'') \<and> currentChannelId exampleHost = Some (lit ''100'')
   \<and> shouldNotify exampleHost following42 (lit ''42'') None
   \<and> shouldNotify exampleHost following42 (lit ''42'') (Some (lit ''200''))
   \<and> \<not> shouldNotify exampleHost following42 (lit ''42'') (Some (lit ''100''))
   \<and> \<not> isInWhitelist following42 (lit ''8'')
   \<and> \<not> shouldNotify exampleHost following42 (lit ''8'') (Some (lit ''200''))"
  using shouldNotify_iff [of exampleHost following42 "lit ''42''" None "lit ''100''"]
    shouldNotify_iff [of exampleHost following42 "lit ''42''" "Some (lit ''200'')" "lit ''100''"]
    shouldNotify_iff [of exampleHost following42 "lit ''42''" "Some (lit ''100'')" "lit ''100''"]
    shouldNotify_iff [of exampleHost following42 "lit ''8''" "Some (lit ''200'')" "lit ''100''"]
  by (simp add: example_defs)

section \<open>The context menu\<close>

text \<open>
  C10. When the user of the menu is the logged-in user, \<open>contextMenuPatch\<close> leaves the
  children as they are.
\<close>

theorem contextMenuPatch_own_user:
  "getCurrentUser h = Some me \<Longrightarrow> props_user p = Some (user_id me) \<Longrightarrow>
     contextMenuPatch h store children (Some p) = Inr children"
  by (simp add: contextMenuPatch_def)

theorem contextMenuPatch_own_user_witness:
  "getCurrentUser exampleHost = Some operator
   \<and> props_user \<lparr>props_user = Some (lit ''1'')\<rparr> = Some (user_id operator)
   \<and> contextMenuPatch exampleHost following42 [HostElement (Some (lit ''user-profile'')), Hole]
        (Some \<lparr>props_user = Some (lit ''1'')\<rparr>)
      = Inr [HostElement (Some (lit ''user-profile'')), Hole]
   \<and> contextMenuPatch exampleHost following42 [HostElement (Some (lit ''user-profile'')), Hole]
        (Some \<lparr>props_user = Some (lit ''42'')\<rparr>)
      = Inr [HostElement (Some (lit ''user-profile'')), Hole, MenuSeparator,
             MenuItem (lit ''follower-v1'') (lit ''Stop Following User'') (lit ''42'')]"
  using contextMenuPatch_own_user [of exampleHost operator "\<lparr>props_user = Some (lit ''1'')\<rparr>" following42
      "[HostElement (Some (lit ''user-profile'')), Hole]"]
  by (simp add: example_defs operator_def contextMenuPatch_def)

section \<open>The payload normalizer\<close>

lemma camelCaseKey_word:
  "underscore \<notin> set w \<Longrightarrow>
   camelCaseKey (w @ underscore # d # rest) =
     w @ (if is_ascii_letter d then toUpperCase d # camelCaseKey rest
          else underscore # camelCaseKey (d # rest))"
  by (induction w rule: camelCaseKey.induct) auto

lemma camelCaseKey_plain: "underscore \<notin> set w \<Longrightarrow> camelCaseKey w = w"
  by (induction w rule: camelCaseKey.induct) auto

lemma join_Cons_Cons: "join sep ((d # rest) # vs) = d # join sep (rest # vs)"
  by (cases vs) auto

lemma camelCaseKey_snake_case:
  "underscore \<notin> set w \<Longrightarrow> \<forall>v\<in>set ws. laterWord v \<Longrightarrow>
   camelCaseKey (snake_case (w # ws)) = camelCase (w # ws)"
proof (induction ws arbitrary: w)
  case Nil
  then show ?case by (simp add: snake_case_def camelCaseKey_plain)
next
  case (Cons v vs)
  then obtain d rest where v: "v = d # rest" and d: "is_ascii_letter d" and r: "underscore \<notin> set rest"
    by (cases v) (auto simp: laterWord_def)
  have "camelCaseKey (snake_case (rest # vs)) = camelCase (rest # vs)"
    using Cons.IH [of rest] Cons.prems r by simp
  then show ?case using Cons.prems v d
    by (simp add: snake_case_def camelCaseKey_word join_Cons_Cons)
qed

lemma convertElements_map: "convertElements xs = map convertSnakeCaseToCamelCase xs"
  by (induction xs) auto

lemma update_fresh: "k \<notin> fst ` set acc \<Longrightarrow> AList.update k v acc = acc @ [(k, v)]"
  by (induction acc) auto

lemma convertEntries_distinct:
  "distinct (map fst acc @ map (\<lambda>kv. camelCaseKey (fst kv)) kvs) \<Longrightarrow>
   convertEntries acc kvs =
     acc @ map (\<lambda>(k, v). (camelCaseKey k, convertSnakeCaseToCamelCase v)) kvs"
proof (induction kvs arbitrary: acc)
  case Nil
  then show ?case by simp
next
  case (Cons kv kvs)
  obtain k v where kv: "kv = (k, v)" by (cases kv)
  have fresh: "camelCaseKey k \<notin> fst ` set acc" using Cons.prems kv by auto
  have "distinct (map fst (acc @ [(camelCaseKey k, convertSnakeCaseToCamelCase v)])
          @ map (\<lambda>kv. camelCaseKey (fst kv)) kvs)"
    using Cons.prems kv by auto
  from Cons.IH [OF this] show ?case using kv fresh by (simp add: update_fresh)
qed

lemma convertEntries_keys:
  "fst ` set (convertEntries acc kvs) = fst ` set acc \<union> camelCaseKey ` fst ` set kvs"
proof (induction kvs arbitrary: acc)
  case Nil
  then show ?case by simp
next
  case (Cons kv kvs)
  obtain k v where kv: "kv = (k, v)" by (cases kv)
  have "fst ` set (convertEntries acc (kv # kvs)) =
          fst ` set (AList.update (camelCaseKey k) (convertSnakeCaseToCamelCase v) acc)
          \<union> camelCaseKey ` fst ` set kvs"
    using Cons.IH kv by simp
  also have "\<dots> = fst ` set acc \<union> camelCaseKey ` fst ` set (kv # kvs)"
    using kv by (simp add: AList.dom_update)
  finally show ?case .
qed

lemma convertEntries_distinct_keys:
  "distinct (map fst acc) \<Longrightarrow> distinct (map fst (convertEntries acc kvs))"
  by (induction kvs arbitrary: acc) (auto simp: AList.distinct_update)

text \<open>
  C9. \<open>convertSnakeCaseToCamelCase\<close> is defined on every payload value. It returns a
  scalar as it is and maps an array element by element. The keys of the object it
  returns are the converted keys of the argument, each once; when the converted keys
  are distinct, the result lists every entry in order under its converted key with
  its converted value. A snake_case key (words joined by underscores, each later word
  starting with a letter) is converted to its camelCase form. The object
  \<open>{global_name: "x", nested_obj: {accent_color: 1}}\<close> becomes
  \<open>{globalName: "x", nestedObj: {accentColor: 1}}\<close>.
\<close>

theorem convertSnakeCaseToCamelCase_spec:
  "convertSnakeCaseToCamelCase JUndefined = JUndefined
   \<and> convertSnakeCaseToCamelCase JNull = JNull
   \<and> convertSnakeCaseToCamelCase (JBool b) = JBool b
   \<and> convertSnakeCaseToCamelCase (JNum n) = JNum n
   \<and> convertSnakeCaseToCamelCase (JStr s) = JStr s
   \<and> convertSnakeCaseToCamelCase (JArr xs) = JArr (map convertSnakeCaseToCamelCase xs)
   \<and> (\<exists>es. convertSnakeCaseToCamelCase (JObj kvs) = JObj es
          \<and> fst ` set es = camelCaseKey ` fst ` set kvs \<and> distinct (map fst es))
   \<and> (distinct (map (\<lambda>kv. camelCaseKey (fst kv)) kvs) \<longrightarrow>
        convertSnakeCaseToCamelCase (JObj kvs) =
          JObj (map (\<lambda>(k, v). (camelCaseKey k, convertSnakeCaseToCamelCase v)) kvs))
   \<and> (underscore \<notin> set w \<and> (\<forall>v\<in>set ws. laterWord v) \<longrightarrow>
        camelCaseKey (snake_case (w # ws)) = camelCase (w # ws))
   \<and> convertSnakeCaseToCamelCase profileExample =
        JObj [(lit ''globalName'', JStr (lit ''x'')),
              (lit ''nestedObj'', JObj [(lit ''accentColor'', JNum 1)])]"
proof -
  have obj: "distinct (map (\<lambda>kv. camelCaseKey (fst kv)) kvs) \<longrightarrow>
        convertSnakeCaseToCamelCase (JObj kvs) =
          JObj (map (\<lambda>(k, v). (camelCaseKey k, convertSnakeCaseToCamelCase v)) kvs)"
    using convertEntries_distinct [of "[]" kvs] by simp
  have keys: "\<exists>es. convertSnakeCaseToCamelCase (JObj kvs) = JObj es
          \<and> fst ` set es = camelCaseKey ` fst ` set kvs \<and> distinct (map fst es)"
    using convertEntries_keys [of "[]" kvs] convertEntries_distinct_keys [of "[]" kvs] by simp
  have ex: "convertSnakeCaseToCamelCase profileExample =
        JObj [(lit ''globalName'', JStr (lit ''x'')),
              (lit ''nestedObj'', JObj [(lit ''accentColor'', JNum 1)])]"
    by (simp add: profileExample_def lit_def underscore_def is_ascii_letter_def toUpperCase_def)
  show ?thesis
    using obj keys ex by (simp add: convertElements_map camelCaseKey_snake_case)
qed

theorem convertSnakeCaseToCamelCase_spec_witness:
  "distinct (map (\<lambda>kv. camelCaseKey (fst kv)) [(lit ''banner_color'', JNull), (lit ''bio'', JArr [JObj [(lit ''a_b'', JNum 2)]])])
   \<and> convertSnakeCaseToCamelCase (JObj [(lit ''banner_color'', JNull), (lit ''bio'', JArr [JObj [(lit ''a_b'', JNum 2)]])])
       = JObj [(lit ''bannerColor'', JNull), (lit ''bio'', JArr [JObj [(lit ''aB'', JNum 2)]])]
   \<and> underscore \<notin> set (lit ''with'') \<and> laterWord (lit ''mutual'') \<and> laterWord (lit ''guilds'')
   \<and> snake_case [lit ''with'', lit ''mutual'', lit ''guilds''] = lit ''with_mutual_guilds''
   \<and> camelCaseKey (lit ''with_mutual_guilds'') = lit ''withMutualGuilds''"
  using convertSnakeCaseToCamelCase_spec [of True 0 "[]" "[]"
      "[(lit ''banner_color'', JNull), (lit ''bio'', JArr [JObj [(lit ''a_b'', JNum 2)]])]"
      "lit ''with''" "[lit ''mutual'', lit ''guilds'']"]
  by (simp add: lit_def underscore_def is_ascii_letter_def toUpperCase_def laterWord_def snake_case_def)

section \<open>Message bodies\<close>

lemma MESSAGE_CREATE_body:
  assumes "MESSAGE_CREATE h st p = Inr st'" and "notifications st' \<noteq> notifications st"
  shows "\<exists>m n. payload_message p = Some m \<and> notifications st' = notifications st @ [n]
           \<and> body n = (if msg_type m = 7 then lit ''Click to jump to the message.''
                        else getMessageBody (settings st) m)"
  using assms
  by (auto simp: MESSAGE_CREATE_def createNotification_def split: option.splits if_splits)

lemma MESSAGE_UPDATE_body:
  assumes "MESSAGE_UPDATE h st p = Inr st'" and "notifications st' \<noteq> notifications st"
  shows "\<exists>m n. payload_message p = Some m \<and> notifications st' = notifications st @ [n]
           \<and> body n = getMessageBody (settings st) m"
  using assms
  by (auto simp: MESSAGE_UPDATE_def createNotification_def split: option.splits if_splits)

text \<open>
  C5, as amended. With \<open>showMessageBody\<close> off, the body is the placeholder. With it
  on, the body is the base content, clipped to \<open>charLimit\<close> code units with \<open>...\<close>
  appended when the limit is positive and the base content is longer, and whole
  otherwise, in particular when the limit is 0. The base content is the message
  content, or for an empty content the first attachment's filename, or without one the
  placeholder. The message-updated notification and the message-created notification
  (other than for a guild-join message, type 7, whose body is fixed) carry this body.
\<close>

theorem getMessageBody_clipped:
  "(\<not> showMessageBody (settings st) \<longrightarrow> getMessageBody (settings st) m = placeholder)
   \<and> (showMessageBody (settings st) \<and> 0 < charLimit (settings st)
        \<and> charLimit (settings st) < int (length (baseContent m)) \<longrightarrow>
        getMessageBody (settings st) m =
          take (nat (charLimit (settings st))) (baseContent m) @ lit ''...'')
   \<and> (showMessageBody (settings st)
        \<and> (charLimit (settings st) \<le> 0 \<or> int (length (baseContent m)) \<le> charLimit (settings st)) \<longrightarrow>
        getMessageBody (settings st) m = baseContent m)
   \<and> (showMessageBody (settings st) \<and> charLimit (settings st) = 0 \<longrightarrow>
        getMessageBody (settings st) m = baseContent m)
   \<and> (msg_content m \<noteq> [] \<longrightarrow> baseContent m = msg_content m)
   \<and> (msg_content m = [] \<and> firstFilename (attachments m) = Some name \<and> name \<noteq> [] \<longrightarrow>
        baseContent m = name)
   \<and> (msg_content m = [] \<and> firstFilename (attachments m) \<in> {None, Some []} \<longrightarrow>
        baseContent m = placeholder)
   \<and> (MESSAGE_CREATE h st p = Inr st' \<and> notifications st' \<noteq> notifications st \<longrightarrow>
        (\<exists>m' n. payload_message p = Some m' \<and> notifications st' = notifications st @ [n]
           \<and> body n = (if msg_type m' = 7 then lit ''Click to jump to the message.''
                        else getMessageBody (settings st) m')))
   \<and> (MESSAGE_UPDATE h st p = Inr st' \<and> notifications st' \<noteq> notifications st \<longrightarrow>
        (\<exists>m' n. payload_message p = Some m' \<and> notifications st' = notifications st @ [n]
           \<and> body n = getMessageBody (settings st) m'))"
proof -
  have hidden: "\<not> showMessageBody (settings st) \<longrightarrow> getMessageBody (settings st) m = placeholder"
    by (simp add: getMessageBody_def)
  have clip: "showMessageBody (settings st) \<and> 0 < charLimit (settings st)
        \<and> charLimit (settings st) < int (length (baseContent m)) \<longrightarrow>
        getMessageBody (settings st) m =
          take (nat (charLimit (settings st))) (baseContent m) @ lit ''...''"
    by (simp add: getMessageBody_def)
  have whole: "showMessageBody (settings st)
        \<and> (charLimit (settings st) \<le> 0 \<or> int (length (baseContent m)) \<le> charLimit (settings st)) \<longrightarrow>
        getMessageBody (settings st) m = baseContent m"
    by (auto simp: getMessageBody_def)
  have unlimited: "showMessageBody (settings st) \<and> charLimit (settings st) = 0 \<longrightarrow>
        getMessageBody (settings st) m = baseContent m"
    by (simp add: getMessageBody_def)
  have base: "(msg_content m \<noteq> [] \<longrightarrow> baseContent m = msg_content m)
   \<and> (msg_content m = [] \<and> firstFilename (attachments m) = Some name \<and> name \<noteq> [] \<longrightarrow>
        baseContent m = name)
   \<and> (msg_content m = [] \<and> firstFilename (attachments m) \<in> {None, Some []} \<longrightarrow>
        baseContent m = placeholder)"
    by (auto simp: baseContent_def)
  show ?thesis
    using hidden clip whole unlimited base
      MESSAGE_CREATE_body [of h st p st'] MESSAGE_UPDATE_body [of h st p st']
    by blast
qed

theorem getMessageBody_clipped_witness:
  "showMessageBody (settings clippingState) \<and> 0 < charLimit (settings clippingState)
   \<and> charLimit (settings clippingState) < int (length (baseContent longMessage))
   \<and> msg_content longMessage \<noteq> []
   \<and> getMessageBody (settings clippingState) longMessage = lit ''hello worl...''
   \<and> msg_content screenshotMessage = []
   \<and> firstFilename (attachments screenshotMessage) = Some (lit ''screenshot-2024.png'')
   \<and> baseContent screenshotMessage = lit ''screenshot-2024.png''
   \<and> getMessageBody (settings clippingState) screenshotMessage = lit ''screenshot...''
   \<and> showMessageBody (settings unlimitedState) \<and> charLimit (settings unlimitedState) = 0
   \<and> getMessageBody (settings unlimitedState) longMessage = lit ''hello world this is long''
   \<and> \<not> showMessageBody (settings hiddenBodyState)
   \<and> getMessageBody (settings hiddenBodyState) longMessage = lit ''Click to jump to the message''
   \<and> MESSAGE_CREATE exampleHost clippingState longMessagePayload =
       Inr (clippingState\<lparr>notifications :=
              [\<lparr>title = lit ''ivy Sent a message'', body = lit ''hello worl...'',
                onClick = SwitchToMsg (Some (lit ''300'')) (Some (lit ''200'')) (Some (lit ''9'')),
                icon = lit ''https://cdn.example/42.png''\<rparr>]\<rparr>)
   \<and> MESSAGE_UPDATE exampleHost clippingState longMessagePayload =
       Inr (clippingState\<lparr>notifications :=
              [\<lparr>title = lit ''ivy Edited a message'', body = lit ''hello worl...'',
                onClick = SwitchToMsg (Some (lit ''300'')) (Some (lit ''200'')) (Some (lit ''9'')),
                icon = lit ''https://cdn.example/42.png''\<rparr>]\<rparr>)"
  using getMessageBody_clipped [of clippingState longMessage "lit ''screenshot-2024.png''"
      exampleHost longMessagePayload
      "clippingState\<lparr>notifications :=
              [\<lparr>title = lit ''ivy Sent a message'', body = lit ''hello worl...'',
                onClick = SwitchToMsg (Some (lit ''300'')) (Some (lit ''200'')) (Some (lit ''9'')),
                icon = lit ''https://cdn.example/42.png''\<rparr>]\<rparr>"]
    getMessageBody_clipped [of hiddenBodyState longMessage "lit ''screenshot-2024.png''"
      exampleHost longMessagePayload hiddenBodyState]
    getMessageBody_clipped [of unlimitedState longMessage "lit ''screenshot-2024.png''"
      exampleHost longMessagePayload unlimitedState]
  by (simp add: example_defs clippingState_def hiddenBodyState_def unlimitedState_def
      longMessage_def screenshotMessage_def longMessagePayload_def follower_def
      getMessageBody_def baseContent_def placeholder_def
      MESSAGE_CREATE_def MESSAGE_UPDATE_def shouldNotify_def createNotification_def)

text \<open>
  With \<open>showMessageBody\<close> off the body is the placeholder, whatever the limit and the
  content; and the filename that stands in for an empty content is clipped as well.
\<close>

theorem getMessageBody_clipped_counterexample:
  "charLimit (settings hiddenBodyState) = 10
   \<and> msg_content longMessage = lit ''hello world this is long''
   \<and> getMessageBody (settings hiddenBodyState) longMessage = lit ''Click to jump to the message''
   \<and> getMessageBody (settings hiddenBodyState) longMessage \<noteq> lit ''hello worl...''
   \<and> getMessageBody (settings clippingState) screenshotMessage \<noteq> lit ''screenshot-2024.png''"
  by (simp add: example_defs clippingState_def hiddenBodyState_def longMessage_def
      screenshotMessage_def getMessageBody_def baseContent_def placeholder_def)

section \<open>Deleted messages\<close>

lemma reloadLoggedMessages_cache:
  "loggedMessages (reloadLoggedMessages h st) =
     (case importEquicord h of
        Module exported \<Rightarrow> (case exported of Some cache \<Rightarrow> cache | None \<Rightarrow> Map.empty)
      | ImportFails e1 \<Rightarrow>
          (case importUserplugins h of
             Module exported \<Rightarrow> (case exported of Some cache \<Rightarrow> cache | None \<Rightarrow> Map.empty)
           | ImportFails e2 \<Rightarrow> Map.empty))"
  by (simp add: reloadLoggedMessages_def importLoggedMessages_def split: import_result.splits)

lemma reloadLoggedMessages_imports:
  "importsTried (reloadLoggedMessages h st) =
     importsTried st @
     (case importEquicord h of
        Module exported \<Rightarrow> [equicordPath]
      | ImportFails e1 \<Rightarrow> [equicordPath, userpluginsPath])"
  by (simp add: reloadLoggedMessages_def importLoggedMessages_def split: import_result.splits)

lemma reloadLoggedMessages_logs:
  "logs (reloadLoggedMessages h st) =
     logs st @
     (case importEquicord h of
        Module exported \<Rightarrow> []
      | ImportFails e1 \<Rightarrow>
          (case importUserplugins h of
             Module exported \<Rightarrow> []
           | ImportFails e2 \<Rightarrow> [(Error, lit ''Failed to load MessageLoggerEnhanced: '' @ e2)]))"
  by (simp add: reloadLoggedMessages_def importLoggedMessages_def split: import_result.splits)

lemma reloadLoggedMessages_keeps:
  "notifications (reloadLoggedMessages h st) = notifications st
   \<and> settings (reloadLoggedMessages h st) = settings st
   \<and> oldUsers (reloadLoggedMessages h st) = oldUsers st"
  by (simp add: reloadLoggedMessages_def importLoggedMessages_def split: import_result.splits)

lemma notifyDeleted_effects:
  "notifyDeleted h st g m = Inr st' \<Longrightarrow>
     importsTried st' = importsTried st \<and> logs st' = logs st \<and> loggedMessages st' = loggedMessages st"
  by (auto simp: notifyDeleted_def createNotification_def split: option.splits if_splits)

lemma MESSAGE_DELETE_unfold:
  assumes "delete_id p = Some ident" "delete_channelId p = Some ch" "delete_guildId p = Some g"
    and "ident \<noteq> []" "ch \<noteq> []" "g \<noteq> []"
  shows "MESSAGE_DELETE h st p =
     (case lookupMessage h st ch ident of
        Own m \<Rightarrow> notifyDeleted h st g m
      | Inherited \<Rightarrow> Inr st
      | Undefined \<Rightarrow>
          (case lookupMessage h (reloadLoggedMessages h st) ch ident of
             Own m \<Rightarrow> notifyDeleted h (reloadLoggedMessages h st) g m
           | Inherited \<Rightarrow> Inr (reloadLoggedMessages h st)
           | Undefined \<Rightarrow> Inr ((reloadLoggedMessages h st)
                 \<lparr>logs := logs (reloadLoggedMessages h st) @ [(Error, notFoundDiagnostic)]\<rparr>)))"
  using assms by (simp add: MESSAGE_DELETE_def Let_def split: property.splits)

text \<open>
  C7. With id, channel and guild present, the deleted message is taken from the live
  message store; failing that from the cached \<open>loggedMessages\<close> (a lookup that gives
  an inherited property of the cache object ends there too: the value has no author,
  and the handler returns at the gate); failing that the cache is replaced once by
  what \<open>importLoggedMessages\<close> gives, the cache of the module at the first install
  location, or with no module there of the module at the second, or the empty cache
  when both imports fail or the module has no cache, and the lookup is repeated once
  in the new cache. If the message is still not found, the handler returns normally
  with the diagnostic logged as an error and no notification added. Resolving a
  message from the store or the cache imports nothing.
\<close>

theorem MESSAGE_DELETE_resolution_order:
  assumes "delete_id p = Some ident" "delete_channelId p = Some ch" "delete_guildId p = Some g"
    and "ident \<noteq> []" "ch \<noteq> []" "g \<noteq> []"
  shows
    "(getMessage h ch ident = Some m \<longrightarrow> MESSAGE_DELETE h st p = notifyDeleted h st g m)
     \<and> (getMessage h ch ident = None \<and> loggedMessages st ident = Some m \<longrightarrow>
          MESSAGE_DELETE h st p = notifyDeleted h st g m)
     \<and> (getMessage h ch ident = None \<and> loggedMessages st ident = None
          \<and> ident \<in> set objectPrototypeKeys \<longrightarrow>
          MESSAGE_DELETE h st p = Inr st)
     \<and> (getMessage h ch ident = None \<and> loggedMessages st ident = None
          \<and> ident \<notin> set objectPrototypeKeys
          \<and> loggedMessages (reloadLoggedMessages h st) ident = Some m \<longrightarrow>
          MESSAGE_DELETE h st p = notifyDeleted h (reloadLoggedMessages h st) g m)
     \<and> (getMessage h ch ident = None \<and> loggedMessages st ident = None
          \<and> ident \<notin> set objectPrototypeKeys
          \<and> loggedMessages (reloadLoggedMessages h st) ident = None \<longrightarrow>
          MESSAGE_DELETE h st p =
            Inr ((reloadLoggedMessages h st)
                   \<lparr>logs := logs (reloadLoggedMessages h st) @ [(Error, notFoundDiagnostic)]\<rparr>))
     \<and> loggedMessages (reloadLoggedMessages h st) =
         (case importEquicord h of
            Module exported \<Rightarrow> (case exported of Some cache \<Rightarrow> cache | None \<Rightarrow> Map.empty)
          | ImportFails e1 \<Rightarrow>
              (case importUserplugins h of
                 Module exported \<Rightarrow> (case exported of Some cache \<Rightarrow> cache | None \<Rightarrow> Map.empty)
               | ImportFails e2 \<Rightarrow> Map.empty))
     \<and> importsTried (reloadLoggedMessages h st) =
         importsTried st @
         (case importEquicord h of
            Module exported \<Rightarrow> [equicordPath]
          | ImportFails e1 \<Rightarrow> [equicordPath, userpluginsPath])
     \<and> logs (reloadLoggedMessages h st) =
         logs st @
         (case importEquicord h of
            Module exported \<Rightarrow> []
          | ImportFails e1 \<Rightarrow>
              (case importUserplugins h of
                 Module exported \<Rightarrow> []
               | ImportFails e2 \<Rightarrow> [(Error, lit ''Failed to load MessageLoggerEnhanced: '' @ e2)]))
     \<and> notifications (reloadLoggedMessages h st) = notifications st
     \<and> settings (reloadLoggedMessages h st) = settings st
     \<and> (notifyDeleted h st g m = Inr st'' \<longrightarrow>
          importsTried st'' = importsTried st \<and> logs st'' = logs st)"
proof -
  note r = MESSAGE_DELETE_unfold [OF assms, of h st]
  have a: "getMessage h ch ident = Some m \<longrightarrow> MESSAGE_DELETE h st p = notifyDeleted h st g m"
    by (simp add: r lookupMessage_def)
  have b: "getMessage h ch ident = None \<and> loggedMessages st ident = Some m \<longrightarrow>
          MESSAGE_DELETE h st p = notifyDeleted h st g m"
    by (simp add: r lookupMessage_def readProperty_def)
  have i: "getMessage h ch ident = None \<and> loggedMessages st ident = None
          \<and> ident \<in> set objectPrototypeKeys \<longrightarrow>
          MESSAGE_DELETE h st p = Inr st"
    by (simp add: r lookupMessage_def readProperty_def)
  have c: "getMessage h ch ident = None \<and> loggedMessages st ident = None
          \<and> ident \<notin> set objectPrototypeKeys
          \<and> loggedMessages (reloadLoggedMessages h st) ident = Some m \<longrightarrow>
          MESSAGE_DELETE h st p = notifyDeleted h (reloadLoggedMessages h st) g m"
    by (simp add: r lookupMessage_def readProperty_def)
  have d: "getMessage h ch ident = None \<and> loggedMessages st ident = None
          \<and> ident \<notin> set objectPrototypeKeys
          \<and> loggedMessages (reloadLoggedMessages h st) ident = None \<longrightarrow>
          MESSAGE_DELETE h st p =
            Inr ((reloadLoggedMessages h st)
                   \<lparr>logs := logs (reloadLoggedMessages h st) @ [(Error, notFoundDiagnostic)]\<rparr>)"
    by (simp add: r lookupMessage_def readProperty_def)
  have e: "notifyDeleted h st g m = Inr st'' \<longrightarrow>
          importsTried st'' = importsTried st \<and> logs st'' = logs st"
    using notifyDeleted_effects [of h st g m st''] by simp
  from a b i c d e reloadLoggedMessages_cache [of h st] reloadLoggedMessages_imports [of h st]
    reloadLoggedMessages_logs [of h st] reloadLoggedMessages_keeps [of h st]
  show ?thesis by simp
qed

theorem MESSAGE_DELETE_resolution_order_witness:
  "delete_id deleteKnown = Some (lit ''9'') \<and> delete_channelId deleteKnown = Some (lit ''200'')
   \<and> delete_guildId deleteKnown = Some (lit ''300'')
   \<and> lit ''9'' \<noteq> [] \<and> lit ''200'' \<noteq> [] \<and> lit ''300'' \<noteq> []
   \<and> getMessage exampleHost (lit ''200'') (lit ''9'') = Some longMessage
   \<and> MESSAGE_DELETE exampleHost clippingState deleteKnown =
       notifyDeleted exampleHost clippingState (lit ''300'') longMessage
   \<and> delete_id deleteUnknown = Some (lit ''77'')
   \<and> getMessage exampleHost (lit ''200'') (lit ''77'') = None
   \<and> loggedMessages clippingState (lit ''77'') = None
   \<and> lit ''77'' \<notin> set objectPrototypeKeys
   \<and> loggedMessages (reloadLoggedMessages exampleHost clippingState) (lit ''77'') = None
   \<and> MESSAGE_DELETE exampleHost clippingState deleteUnknown =
       Inr (clippingState\<lparr>logs := [(Error, notFoundDiagnostic)],
              importsTried := [equicordPath, userpluginsPath]\<rparr>)
   \<and> loggedMessages (reloadLoggedMessages loggingHost clippingState) (lit ''77'') = Some loggedOnlyMessage
   \<and> MESSAGE_DELETE loggingHost clippingState deleteUnknown =
       Inr (clippingState\<lparr>loggedMessages := [lit ''77'' \<mapsto> loggedOnlyMessage],
              importsTried := [equicordPath, userpluginsPath],
              notifications :=
                [\<lparr>title = lit ''ivy Deleted a message!'', body = lit ''\"gone\"'',
                  onClick = SelectChannel (lit ''300'') (Some (lit ''200'')) (Some (lit ''77'')),
                  icon = lit ''https://cdn.example/42.png''\<rparr>]\<rparr>)
   \<and> delete_id deleteConstructor = Some (lit ''constructor'')
   \<and> lit ''constructor'' \<in> set objectPrototypeKeys
   \<and> MESSAGE_DELETE exampleHost clippingState deleteConstructor = Inr clippingState"
  using MESSAGE_DELETE_resolution_order [of deleteKnown "lit ''9''" "lit ''200''" "lit ''300''"
      exampleHost longMessage clippingState clippingState]
    MESSAGE_DELETE_resolution_order [of deleteUnknown "lit ''77''" "lit ''200''" "lit ''300''"
      exampleHost longMessage clippingState clippingState]
    MESSAGE_DELETE_resolution_order [of deleteUnknown "lit ''77''" "lit ''200''" "lit ''300''"
      loggingHost loggedOnlyMessage clippingState clippingState]
    MESSAGE_DELETE_resolution_order [of deleteConstructor "lit ''constructor''" "lit ''200''" "lit ''300''"
      exampleHost longMessage clippingState clippingState]
  by (simp add: deleteKnown_def deleteUnknown_def deleteConstructor_def example_defs
      loggingHost_def loggedOnlyMessage_def follower_def clippingState_def
      objectPrototypeKeys_def MESSAGE_DELETE_def lookupMessage_def readProperty_def
      reloadLoggedMessages_def importLoggedMessages_def notifyDeleted_def shouldNotify_def
      deletedBody_def createNotification_def quote_def)

text \<open>
  C8. The body of the message-deleted notification does not follow \<open>charLimit\<close>, the
  setting described as the character limit for notifications, 0 for no limit: the
  handler clips at the constant 100. With the limit at 10, the 24 code units of the
  content are shown whole, between quotes, where the rule gives
  \<open>hello worl...\<close>; with the limit at 0, a content of 101 code units is clipped to
  100 where the rule leaves it whole.
\<close>

theorem MESSAGE_DELETE_body_ignores_charLimit:
  "charLimit (settings clippingState) = 10
   \<and> getMessageBody (settings clippingState) longMessage = lit ''hello worl...''
   \<and> MESSAGE_DELETE exampleHost clippingState deleteKnown =
       Inr (clippingState\<lparr>notifications :=
              [\<lparr>title = lit ''ivy Deleted a message!'',
                body = lit ''\"hello world this is long\"'',
                onClick = SelectChannel (lit ''300'') (Some (lit ''200'')) (Some (lit ''9'')),
                icon = lit ''https://cdn.example/42.png''\<rparr>]\<rparr>)
   \<and> lit ''\"hello world this is long\"'' \<noteq> lit ''hello worl...''
   \<and> charLimit (settings unlimitedState) = 0
   \<and> getMessageBody (settings unlimitedState) repetitiveMessage = replicate 101 0x61
   \<and> MESSAGE_DELETE (exampleHost\<lparr>getMessage := \<lambda>channelId ident. Some repetitiveMessage\<rparr>)
         unlimitedState deleteKnown =
       Inr (unlimitedState\<lparr>notifications :=
              [\<lparr>title = lit ''ivy Deleted a message!'',
                body = [quote] @ replicate 100 0x61 @ lit ''...'' @ [quote],
                onClick = SelectChannel (lit ''300'') (Some (lit ''200'')) (Some (lit ''9'')),
                icon = lit ''https://cdn.example/42.png''\<rparr>]\<rparr>)"
  by (simp add: deleteKnown_def example_defs clippingState_def unlimitedState_def longMessage_def
      repetitiveMessage_def shouldNotify_def follower_def MESSAGE_DELETE_def lookupMessage_def
      notifyDeleted_def deletedBody_def createNotification_def quote_def
      getMessageBody_def baseContent_def)

section \<open>Profile changes\<close>










end
